theory Spec2Isabelle
  imports Main "HOL-Library.Word"
begin

section \<open>The store\<close>

text \<open>
  An identifier is a \<^verbatim>\<open>uuid.UUID\<close>, sixteen bytes: a 128-bit word.
  A user is the struct of three strings.
\<close>

type_synonym ID = "128 word"

record User =
  FirstName :: string
  LastName :: string
  Biography :: string

text \<open>
  The package \<^verbatim>\<open>github.com/google/uuid\<close> is not part of the repository. What the
  program uses of it is taken as a parameter: \<open>uuid_New\<close> gives the identifier that the
  \<open>n\<close>-th call of \<^verbatim>\<open>uuid.New()\<close> returns (the calls draw from a random source, so
  the sequence is arbitrary), \<open>uuid_String\<close> is the string form of an identifier and
  \<open>uuid_Parse\<close> reads one, with \<open>None\<close> for the error.
\<close>

record uuid_pkg =
  uuid_New :: "nat \<Rightarrow> ID"
  uuid_String :: "ID \<Rightarrow> string"
  uuid_Parse :: "string \<Rightarrow> ID option"

text \<open>The struct \<^verbatim>\<open>application\<close> holds the map from identifiers to users.\<close>

record application =
  data :: "ID \<rightharpoonup> User"

definition NewApplication :: "(ID \<rightharpoonup> User) \<Rightarrow> application" where
  "NewApplication d = \<lparr>data = d\<rparr>"

text \<open>Reading a Go map at a missing key gives the zero value of the element type.\<close>

definition zero_User :: User where
  "zero_User = \<lparr>FirstName = [], LastName = [], Biography = []\<rparr>"

definition map_index :: "(ID \<rightharpoonup> User) \<Rightarrow> ID \<Rightarrow> User" where
  "map_index m k = (case m k of None \<Rightarrow> zero_User | Some u \<Rightarrow> u)"

text \<open>
  The loop of \<^verbatim>\<open>Insert\<close>: \<^verbatim>\<open>for ok { id = ID(uuid.New()); _, ok = a.data[id] }\<close>.
  Its state is the candidate \<open>id\<close>, the flag \<open>ok\<close> and the number \<open>n\<close> of calls of
  \<^verbatim>\<open>uuid.New()\<close> made so far. The loop has no bound, so the model is a partial
  function: \<open>None\<close> is a loop that never exits.
\<close>

partial_function (option) Insert_loop ::
  "uuid_pkg \<Rightarrow> application \<Rightarrow> nat \<Rightarrow> ID \<Rightarrow> bool \<Rightarrow> (ID \<times> nat) option" where
  "Insert_loop uu a n ident ok =
     (if ok
      then Insert_loop uu a (Suc n) (uuid_New uu n) (data a (uuid_New uu n) \<noteq> None)
      else Some (ident, n))"

text \<open>
  \<^verbatim>\<open>Insert\<close> returns the stored record and the identifier's string; the model returns
  the updated application and the new call count with them.
\<close>

definition Insert ::
  "uuid_pkg \<Rightarrow> application \<Rightarrow> nat \<Rightarrow> User \<Rightarrow> (User \<times> string \<times> application \<times> nat) option" where
  "Insert uu a n user =
     (case Insert_loop uu a (Suc n) (uuid_New uu n) (data a (uuid_New uu n) \<noteq> None) of
        None \<Rightarrow> None
      | Some (ident, n') \<Rightarrow>
          (let a' = a\<lparr>data := (data a)(ident \<mapsto> user)\<rparr>
           in Some (map_index (data a') ident, uuid_String uu ident, a', n')))"

definition FindAll :: "application \<Rightarrow> (ID \<rightharpoonup> User)" where
  "FindAll a = data a"

definition FindByID :: "application \<Rightarrow> ID \<Rightarrow> User option" where
  "FindByID a ident = (case data a ident of None \<Rightarrow> None | Some user \<Rightarrow> Some user)"

definition Update :: "application \<Rightarrow> ID \<Rightarrow> User \<Rightarrow> application" where
  "Update a ident user =
     (if data a ident = None then a else a\<lparr>data := (data a)(ident \<mapsto> user)\<rparr>)"

definition Delete :: "application \<Rightarrow> ID \<Rightarrow> application" where
  "Delete a ident =
     (if data a ident = None then a else a\<lparr>data := (data a)(ident := None)\<rparr>)"

text \<open>
  A sequence of calls of the five methods, run one after the other on the application.
  A call of \<^verbatim>\<open>Insert\<close> whose loop never exits stops the run: \<open>None\<close>.
\<close>

datatype op = OpInsert User | OpFindAll | OpFindByID ID | OpUpdate ID User | OpDelete ID

fun apply_op :: "uuid_pkg \<Rightarrow> application \<times> nat \<Rightarrow> op \<Rightarrow> (application \<times> nat) option" where
  "apply_op uu (a, n) (OpInsert user) =
     (case Insert uu a n user of None \<Rightarrow> None | Some (_, _, a', n') \<Rightarrow> Some (a', n'))"
| "apply_op uu (a, n) OpFindAll = (let _ = FindAll a in Some (a, n))"
| "apply_op uu (a, n) (OpFindByID ident) = (let _ = FindByID a ident in Some (a, n))"
| "apply_op uu (a, n) (OpUpdate ident user) = Some (Update a ident user, n)"
| "apply_op uu (a, n) (OpDelete ident) = Some (Delete a ident, n)"

fun run_ops :: "uuid_pkg \<Rightarrow> application \<times> nat \<Rightarrow> op list \<Rightarrow> (application \<times> nat) option" where
  "run_ops uu s [] = Some s"
| "run_ops uu s (x # xs) =
     (case apply_op uu s x of None \<Rightarrow> None | Some s' \<Rightarrow> run_ops uu s' xs)"

fun writes_to :: "ID \<Rightarrow> op \<Rightarrow> bool" where
  "writes_to i (OpUpdate j _) = (i = j)"
| "writes_to i (OpDelete j) = (i = j)"
| "writes_to i _ = False"

text \<open>
  \<open>first_free uu a n k\<close>: of the identifiers that \<^verbatim>\<open>uuid.New()\<close> returns from its
  \<open>n\<close>-th call on, the one at offset \<open>k\<close> is the first that is not a key of the store.
\<close>

definition first_free :: "uuid_pkg \<Rightarrow> application \<Rightarrow> nat \<Rightarrow> nat \<Rightarrow> bool" where
  "first_free uu a n k \<longleftrightarrow>
     data a (uuid_New uu (n + k)) = None \<and>
     list_all (\<lambda>j. data a (uuid_New uu (n + j)) \<noteq> None) [0..<k]"

text \<open>The store that \<^verbatim>\<open>run\<close> in \<^verbatim>\<open>main.go\<close> starts from: an empty map.\<close>

definition run_db :: application where
  "run_db = NewApplication Map.empty"

section \<open>The HTTP handler layer\<close>

text \<open>
  JSON documents are modelled as values, not as bytes: which keys an object has, in
  which order, and whether a value is \<^verbatim>\<open>null\<close>, a string or an array is decided by
  the repository's structs and tags; how a string is escaped is the business of
  \<^verbatim>\<open>encoding/json\<close>.
\<close>

datatype error = ErrDecode | ErrMarshal | ErrBodyNotAllowed

datatype json = JNull | JString string | JArray "json list" | JObject "(string \<times> json) list"

record UserResponse =
  resp_ID :: string
  resp_FirstName :: string
  resp_LastName :: string
  resp_Biography :: string

text \<open>
  The field \<^verbatim>\<open>Data any\<close> holds, in this program, nothing, one \<^verbatim>\<open>UserResponse\<close> or
  a slice of them. A slice is \<open>None\<close> when it is the nil slice, which is not the empty
  slice \<open>Some []\<close>.
\<close>

datatype any = AnyNil | AnyUserResponse UserResponse | AnyUserResponses "UserResponse list option"

record Response =
  Error :: string
  Data :: any

definition append_slice :: "'a list option \<Rightarrow> 'a \<Rightarrow> 'a list option" where
  "append_slice s x = (case s of None \<Rightarrow> Some [x] | Some xs \<Rightarrow> Some (xs @ [x]))"

definition Marshal_UserResponse :: "UserResponse \<Rightarrow> json" where
  "Marshal_UserResponse u =
     JObject [(''id'', JString (resp_ID u)),
              (''first_name'', JString (resp_FirstName u)),
              (''last_name'', JString (resp_LastName u)),
              (''biography'', JString (resp_Biography u))]"

definition Marshal_any :: "any \<Rightarrow> json" where
  "Marshal_any d =
     (case d of
        AnyNil \<Rightarrow> JNull
      | AnyUserResponse u \<Rightarrow> Marshal_UserResponse u
      | AnyUserResponses None \<Rightarrow> JNull
      | AnyUserResponses (Some us) \<Rightarrow> JArray (map Marshal_UserResponse us))"

text \<open>
  \<^verbatim>\<open>json.Marshal\<close> of a \<^verbatim>\<open>Response\<close>. Both fields carry \<^verbatim>\<open>omitempty\<close>: the
  error is left out when it is the empty string, the data when the interface is nil
  (an interface that holds a slice, nil or empty, is not nil). Strings, structs of
  strings and slices of them always marshal, so the result is never an error \<open>Inl\<close>.
\<close>

definition Marshal :: "Response \<Rightarrow> error + json" where
  "Marshal resp =
     Inr (JObject
       ((if Error resp = [] then [] else [(''error'', JString (Error resp))]) @
        (if Data resp = AnyNil then [] else [(''data'', Marshal_any (Data resp))])))"

text \<open>
  The response writer of \<^verbatim>\<open>net/http\<close>: the header map, the status once it has been
  written, and what has been written to the body. \<open>Log\<close> collects the messages of
  \<^verbatim>\<open>slog.Error\<close> made while the response is produced. As in \<^verbatim>\<open>net/http\<close>, a second
  \<^verbatim>\<open>WriteHeader\<close> changes nothing, \<^verbatim>\<open>Write\<close> writes the status 200 first when none
  has been written, and \<^verbatim>\<open>Write\<close> refuses a body when the status is 1xx, 204 or 304:
  it writes nothing and returns \<^verbatim>\<open>http.ErrBodyNotAllowed\<close> (the test is the function
  \<^verbatim>\<open>bodyAllowedForStatus\<close> of \<^verbatim>\<open>net/http\<close>). That package is not part of the
  repository; the model follows its documented behaviour.
\<close>

datatype payload = Json json | Text string

record ResponseWriter =
  Header :: "string \<rightharpoonup> string"
  Status :: "nat option"
  Body :: "payload list"
  Log :: "string list"

definition NewResponseWriter :: ResponseWriter where
  "NewResponseWriter = \<lparr>Header = Map.empty, Status = None, Body = [], Log = []\<rparr>"

abbreviation StatusOK :: nat where "StatusOK \<equiv> 200"
abbreviation StatusCreated :: nat where "StatusCreated \<equiv> 201"
abbreviation StatusNoContent :: nat where "StatusNoContent \<equiv> 204"
abbreviation StatusBadRequest :: nat where "StatusBadRequest \<equiv> 400"
abbreviation StatusNotFound :: nat where "StatusNotFound \<equiv> 404"
abbreviation StatusInternalServerError :: nat where "StatusInternalServerError \<equiv> 500"

definition Header_Set :: "ResponseWriter \<Rightarrow> string \<Rightarrow> string \<Rightarrow> ResponseWriter" where
  "Header_Set w k v = w\<lparr>Header := (Header w)(k \<mapsto> v)\<rparr>"

definition WriteHeader :: "ResponseWriter \<Rightarrow> nat \<Rightarrow> ResponseWriter" where
  "WriteHeader w code = (if Status w = None then w\<lparr>Status := Some code\<rparr> else w)"

definition bodyAllowedForStatus :: "nat \<Rightarrow> bool" where
  "bodyAllowedForStatus status =
     (if 100 \<le> status \<and> status \<le> 199 then False
      else if status = 204 then False
      else if status = 304 then False
      else True)"

definition Write :: "ResponseWriter \<Rightarrow> payload \<Rightarrow> ResponseWriter \<times> error option" where
  "Write w p =
     (let w1 = WriteHeader w StatusOK;
          status = (case Status w1 of None \<Rightarrow> StatusOK | Some code \<Rightarrow> code)
      in if bodyAllowedForStatus status then (w1\<lparr>Body := Body w1 @ [p]\<rparr>, None)
         else (w1, Some ErrBodyNotAllowed))"

definition slog_Error :: "ResponseWriter \<Rightarrow> string \<Rightarrow> ResponseWriter" where
  "slog_Error w msg = w\<lparr>Log := Log w @ [msg]\<rparr>"

text \<open>
  \<^verbatim>\<open>http.Error\<close>: a plain-text response, the message followed by a newline.
\<close>

definition http_Error :: "ResponseWriter \<Rightarrow> string \<Rightarrow> nat \<Rightarrow> ResponseWriter" where
  "http_Error w msg code =
     (let w1 = Header_Set w ''Content-Type'' ''text/plain; charset=utf-8'';
          w2 = Header_Set w1 ''X-Content-Type-Options'' ''nosniff'';
          w3 = WriteHeader w2 code
      in fst (Write w3 (Text (msg @ [CHR 0x0A]))))"

text \<open>
  \<^verbatim>\<open>sendJSON\<close>. When marshalling fails it logs and calls itself with the generic error
  and status 500; when \<^verbatim>\<open>Write\<close> fails it logs.
\<close>

function sendJSON :: "ResponseWriter \<Rightarrow> Response \<Rightarrow> nat \<Rightarrow> ResponseWriter" where
  "sendJSON w resp status =
     (let w1 = Header_Set w ''Content-Type'' ''application/json'' in
      case Marshal resp of
        Inl err \<Rightarrow>
          sendJSON (slog_Error w1 ''failed to marshal JSON data.'')
            \<lparr>Error = ''something went wrong'', Data = AnyNil\<rparr> StatusInternalServerError
      | Inr d \<Rightarrow>
          (let w2 = WriteHeader w1 status in
           case Write w2 (Json d) of
             (w3, None) \<Rightarrow> w3
           | (w3, Some err) \<Rightarrow> slog_Error w3 ''failed to write response to client.''))"
  by pat_completeness auto
termination
  by (relation "measure (\<lambda>(w, resp, status). if isl (Marshal resp) then 1 else 0)")
     (auto simp: Marshal_def)

declare sendJSON.simps [simp del]

text \<open>
  A request, as far as the handlers read it: the path parameter \<^verbatim>\<open>id\<close> and the body.
  \<^verbatim>\<open>encoding/json\<close> is not part of the repository, so the body is given by what
  \<^verbatim>\<open>Decode\<close> makes of it: it fails, or it succeeds and has set those of the three
  fields that the document gives (in the order first name, last name, biography).
\<close>

datatype decoded = DecodeError | Decoded "string option" "string option" "string option"

record Request =
  URLParam_id :: string
  Decoding :: decoded

text \<open>
  \<^verbatim>\<open>json.NewDecoder(r.Body).Decode(&body)\<close>: the fields that the document gives are
  set in \<open>body\<close>, the others keep the value they had; \<open>Inl\<close> is the error.
\<close>

definition Decode :: "Request \<Rightarrow> User \<Rightarrow> error + User" where
  "Decode r body =
     (case Decoding r of
        DecodeError \<Rightarrow> Inl ErrDecode
      | Decoded f l b \<Rightarrow>
          Inr \<lparr>FirstName = (case f of None \<Rightarrow> FirstName body | Some x \<Rightarrow> x),
               LastName = (case l of None \<Rightarrow> LastName body | Some x \<Rightarrow> x),
               Biography = (case b of None \<Rightarrow> Biography body | Some x \<Rightarrow> x)\<rparr>)"

definition CreateUserHandler ::
  "uuid_pkg \<Rightarrow> application \<Rightarrow> nat \<Rightarrow> ResponseWriter \<Rightarrow> Request \<Rightarrow>
     (ResponseWriter \<times> application \<times> nat) option" where
  "CreateUserHandler uu db n w r =
     (case Decode r zero_User of
        Inl err \<Rightarrow>
          Some (sendJSON w
                  \<lparr>Error = ''Please provide FirstName LastName and bio for the user'',
                   Data = AnyNil\<rparr>
                  StatusBadRequest, db, n)
      | Inr body \<Rightarrow>
          (case Insert uu db n body of
             None \<Rightarrow> None
           | Some (user, ident, db', n') \<Rightarrow>
               Some (sendJSON w
                       \<lparr>Error = [],
                        Data = AnyUserResponse
                          \<lparr>resp_ID = ident,
                           resp_FirstName = FirstName user,
                           resp_LastName = LastName user,
                           resp_Biography = Biography user\<rparr>\<rparr>
                       StatusCreated, db', n')))"

text \<open>
  \<^verbatim>\<open>for id, user := range users\<close> visits the entries of the map in an order that the
  runtime chooses: \<open>keys\<close> is that order, a parameter.
\<close>

fun range_users ::
  "uuid_pkg \<Rightarrow> (ID \<rightharpoonup> User) \<Rightarrow> ID list \<Rightarrow> UserResponse list option \<Rightarrow>
     UserResponse list option" where
  "range_users uu users [] response = response"
| "range_users uu users (ident # keys) response =
     (case users ident of
        None \<Rightarrow> range_users uu users keys response
      | Some user \<Rightarrow>
          range_users uu users keys
            (append_slice response
               \<lparr>resp_ID = uuid_String uu ident,
                resp_FirstName = FirstName user,
                resp_LastName = LastName user,
                resp_Biography = Biography user\<rparr>))"

definition FindAllUsersHandler ::
  "uuid_pkg \<Rightarrow> application \<Rightarrow> ID list \<Rightarrow> ResponseWriter \<Rightarrow> Request \<Rightarrow> ResponseWriter" where
  "FindAllUsersHandler uu db keys w r =
     (let response = range_users uu (FindAll db) keys None in
      if response = None
      then sendJSON w \<lparr>Error = [], Data = AnyUserResponses (Some [])\<rparr> StatusOK
      else sendJSON w \<lparr>Error = [], Data = AnyUserResponses response\<rparr> StatusOK)"

definition FindByIDUserHandler ::
  "uuid_pkg \<Rightarrow> application \<Rightarrow> ResponseWriter \<Rightarrow> Request \<Rightarrow> ResponseWriter" where
  "FindByIDUserHandler uu db w r =
     (let rawID = URLParam_id r in
      case uuid_Parse uu rawID of
        None \<Rightarrow> http_Error w ''UUID not valid'' StatusBadRequest
      | Some ident \<Rightarrow>
          (case FindByID db ident of
             None \<Rightarrow>
               sendJSON w
                 \<lparr>Error = ''The user with the specified ID does not exist.'', Data = AnyNil\<rparr>
                 StatusNotFound
           | Some user \<Rightarrow>
               sendJSON w
                 \<lparr>Error = [],
                  Data = AnyUserResponse
                    \<lparr>resp_ID = rawID,
                     resp_FirstName = FirstName user,
                     resp_LastName = LastName user,
                     resp_Biography = Biography user\<rparr>\<rparr>
                 StatusOK))"

definition UpdateUserHandler ::
  "uuid_pkg \<Rightarrow> application \<Rightarrow> ResponseWriter \<Rightarrow> Request \<Rightarrow> ResponseWriter \<times> application" where
  "UpdateUserHandler uu db w r =
     (case Decode r zero_User of
        Inl err \<Rightarrow>
          (sendJSON w
             \<lparr>Error = ''Please provide FirstName LastName and bio for the user'',
              Data = AnyNil\<rparr>
             StatusBadRequest, db)
      | Inr body \<Rightarrow>
          (let rawID = URLParam_id r in
           case uuid_Parse uu rawID of
             None \<Rightarrow> (http_Error w ''UUID not valid'' StatusBadRequest, db)
           | Some ident \<Rightarrow>
               (case FindByID db ident of
                  None \<Rightarrow>
                    (sendJSON w
                       \<lparr>Error = ''The user with the specified ID does not exist.'',
                        Data = AnyNil\<rparr>
                       StatusNotFound, db)
                | Some user \<Rightarrow>
                    (let db' = Update db ident body in
                     (sendJSON w \<lparr>Error = [], Data = AnyNil\<rparr> StatusNoContent, db')))))"

definition DeleteUserHandler ::
  "uuid_pkg \<Rightarrow> application \<Rightarrow> ResponseWriter \<Rightarrow> Request \<Rightarrow> ResponseWriter \<times> application" where
  "DeleteUserHandler uu db w r =
     (let rawID = URLParam_id r in
      case uuid_Parse uu rawID of
        None \<Rightarrow> (http_Error w ''UUID not valid'' StatusBadRequest, db)
      | Some ident \<Rightarrow>
          (case FindByID db ident of
             None \<Rightarrow>
               (sendJSON w
                  \<lparr>Error = ''The user with the specified ID does not exist.'',
                   Data = AnyNil\<rparr>
                  StatusNotFound, db)
           | Some user \<Rightarrow>
               (let db' = Delete db ident in
                (sendJSON w \<lparr>Error = [], Data = AnyNil\<rparr> StatusNoContent, db'))))"

section \<open>An instance of the identifier package\<close>

text \<open>
  To evaluate the model, an instance of the parameters: the canonical string form
  \<^verbatim>\<open>xxxxxxxx-xxxx-xxxx-xxxx-xxxxxxxxxxxx\<close> in lower-case hexadecimal digits, a parser
  of that form, and a generator that returns every identifier twice in a row
  (0, 0, 1, 1, 2, 2, ...), so that every second \<^verbatim>\<open>Insert\<close> meets a collision.
\<close>

definition hex_digit :: "nat \<Rightarrow> char" where
  "hex_digit d = ''0123456789abcdef'' ! (d mod 16)"

definition hex_byte :: "ID \<Rightarrow> nat \<Rightarrow> string" where
  "hex_byte w i =
     (let b = unat (drop_bit (8 * (15 - i)) w) mod 256
      in [hex_digit (b div 16), hex_digit (b mod 16)])"

definition canonical_String :: "ID \<Rightarrow> string" where
  "canonical_String w =
     concat (map (hex_byte w) [0, 1, 2, 3]) @ ''-'' @
     concat (map (hex_byte w) [4, 5]) @ ''-'' @
     concat (map (hex_byte w) [6, 7]) @ ''-'' @
     concat (map (hex_byte w) [8, 9]) @ ''-'' @
     concat (map (hex_byte w) [10, 11, 12, 13, 14, 15])"

definition hex_value :: "char \<Rightarrow> nat option" where
  "hex_value c =
     map_of [(CHR ''0'', 0), (CHR ''1'', 1), (CHR ''2'', 2), (CHR ''3'', 3),
             (CHR ''4'', 4), (CHR ''5'', 5), (CHR ''6'', 6), (CHR ''7'', 7),
             (CHR ''8'', 8), (CHR ''9'', 9), (CHR ''a'', 10), (CHR ''b'', 11),
             (CHR ''c'', 12), (CHR ''d'', 13), (CHR ''e'', 14), (CHR ''f'', 15)] c"

fun hex_number :: "nat \<Rightarrow> string \<Rightarrow> nat option" where
  "hex_number acc [] = Some acc"
| "hex_number acc (c # cs) =
     (case hex_value c of None \<Rightarrow> None | Some d \<Rightarrow> hex_number (16 * acc + d) cs)"

definition canonical_Parse :: "string \<Rightarrow> ID option" where
  "canonical_Parse s =
     (if length s = 36 \<and> s ! 8 = CHR ''-'' \<and> s ! 13 = CHR ''-'' \<and>
         s ! 18 = CHR ''-'' \<and> s ! 23 = CHR ''-''
      then map_option word_of_nat
             (hex_number 0 (take 8 s @ take 4 (drop 9 s) @ take 4 (drop 14 s) @
                            take 4 (drop 19 s) @ drop 24 s))
      else None)"

definition twice_New :: "nat \<Rightarrow> ID" where
  "twice_New n = word_of_nat (n div 2)"

definition example_uuid :: uuid_pkg where
  "example_uuid =
     \<lparr>uuid_New = twice_New, uuid_String = canonical_String, uuid_Parse = canonical_Parse\<rparr>"

text \<open>A generator that returns the same identifier at every call.\<close>

definition stuck_New :: "nat \<Rightarrow> ID" where
  "stuck_New n = 7"

definition stuck_uuid :: uuid_pkg where
  "stuck_uuid =
     \<lparr>uuid_New = stuck_New, uuid_String = canonical_String, uuid_Parse = canonical_Parse\<rparr>"

text \<open>Users, stores and requests to evaluate the model on.\<close>

definition ada :: User where
  "ada = \<lparr>FirstName = ''Ada'', LastName = ''Lovelace'', Biography = ''mathematician''\<rparr>"

definition alan :: User where
  "alan = \<lparr>FirstName = ''Alan'', LastName = ''Turing'', Biography = ''logician''\<rparr>"

definition ada_db :: application where
  "ada_db = \<lparr>data = [0 \<mapsto> ada]\<rparr>"

definition stuck_db :: application where
  "stuck_db = \<lparr>data = [7 \<mapsto> ada]\<rparr>"

text \<open>
  A field that the request body does not give stays the empty string of the zero-valued
  \<^verbatim>\<open>var body User\<close>.
\<close>

definition or_empty :: "string option \<Rightarrow> string" where
  "or_empty x = (case x of None \<Rightarrow> [] | Some s \<Rightarrow> s)"

definition put_alan_1 :: Request where
  "put_alan_1 = \<lparr>URLParam_id = ''00000000-0000-0000-0000-000000000001'',
                  Decoding = Decoded (Some ''Alan'') (Some ''Turing'') (Some ''logician'')\<rparr>"

definition put_alan_0 :: Request where
  "put_alan_0 = \<lparr>URLParam_id = ''00000000-0000-0000-0000-000000000000'',
                  Decoding = Decoded (Some ''Alan'') (Some ''Turing'') (Some ''logician'')\<rparr>"

definition bad_request :: Request where
  "bad_request = \<lparr>URLParam_id = ''not-a-uuid'', Decoding = DecodeError\<rparr>"

definition bad_id_request :: Request where
  "bad_id_request = \<lparr>URLParam_id = ''not-a-uuid'',
                      Decoding = Decoded (Some ''Alan'') (Some ''Turing'') (Some ''logician'')\<rparr>"

definition post_partial :: Request where
  "post_partial = \<lparr>URLParam_id = [], Decoding = Decoded (Some ''Alan'') None None\<rparr>"

definition ops_example :: "op list" where
  "ops_example = [OpInsert alan, OpUpdate 1 ada, OpFindAll, OpFindByID 0, OpDelete 5]"

section \<open>The loop of Insert\<close>

lemma Insert_loop_exit: "Insert_loop uu a n ident False = Some (ident, n)"
  by (subst Insert_loop.simps) simp

lemma Insert_loop_again:
  "Insert_loop uu a n ident True =
     Insert_loop uu a (Suc n) (uuid_New uu n) (data a (uuid_New uu n) \<noteq> None)"
  by (subst Insert_loop.simps) simp

lemma Insert_loop_first_free:
  "data a (uuid_New uu (n + k)) = None \<Longrightarrow>
   (\<forall>j<k. data a (uuid_New uu (n + j)) \<noteq> None) \<Longrightarrow>
   Insert_loop uu a n ident True = Some (uuid_New uu (n + k), Suc (n + k))"
proof (induction k arbitrary: n ident)
  case 0
  then show ?case by (simp add: Insert_loop_again Insert_loop_exit)
next
  case (Suc k)
  have occ: "data a (uuid_New uu n) \<noteq> None"
    using Suc.prems(2) [rule_format, of 0] by simp
  have "Insert_loop uu a (Suc n) (uuid_New uu n) True =
          Some (uuid_New uu (Suc n + k), Suc (Suc n + k))"
  proof (rule Suc.IH)
    show "data a (uuid_New uu (Suc n + k)) = None" using Suc.prems(1) by simp
    show "\<forall>j<k. data a (uuid_New uu (Suc n + j)) \<noteq> None"
    proof (intro allI impI)
      fix j assume "j < k"
      then have "Suc j < Suc k" by simp
      from Suc.prems(2) [rule_format, OF this]
      show "data a (uuid_New uu (Suc n + j)) \<noteq> None" by simp
    qed
  qed
  with occ show ?case by (simp add: Insert_loop_again)
qed

text \<open>
  By fixpoint induction: a loop that exits has met a free identifier. So a generator
  that only ever returns keys of the store keeps the loop running for ever.
\<close>

lemma Insert_loop_Some_free:
  assumes "Insert_loop uu a n ident ok = Some r"
  shows "if ok then \<exists>k. data a (uuid_New uu (n + k)) = None else r = (ident, n)"
proof (rule Insert_loop.raw_induct
    [where P = "\<lambda>uu a n ident ok r.
       (if ok then \<exists>k. data a (uuid_New uu (n + k)) = None else r = (ident, n))",
     OF _ assms])
  fix f uu a n ident ok r
  assume IH: "\<And>uu a n ident ok r. f uu a n ident ok = Some r \<Longrightarrow>
        (if ok then \<exists>k. data a (uuid_New uu (n + k)) = None else r = (ident, n))"
    and step: "(if ok then f uu a (Suc n) (uuid_New uu n) (data a (uuid_New uu n) \<noteq> None)
                else Some (ident, n)) = Some r"
  show "if ok then \<exists>k. data a (uuid_New uu (n + k)) = None else r = (ident, n)"
  proof (cases ok)
    case False
    with step show ?thesis by simp
  next
    case True
    with step
    have call: "f uu a (Suc n) (uuid_New uu n) (data a (uuid_New uu n) \<noteq> None) = Some r"
      by simp
    show ?thesis
    proof (cases "data a (uuid_New uu n) = None")
      case True
      then have "data a (uuid_New uu (n + 0)) = None" by simp
      then have "\<exists>k. data a (uuid_New uu (n + k)) = None" by (rule exI)
      then show ?thesis using \<open>ok\<close> by simp
    next
      case False
      with IH [OF call] obtain k where "data a (uuid_New uu (Suc n + k)) = None" by auto
      then have "data a (uuid_New uu (n + Suc k)) = None" by simp
      then have "\<exists>k. data a (uuid_New uu (n + k)) = None" by (rule exI)
      then show ?thesis using \<open>ok\<close> by simp
    qed
  qed
qed

lemma first_free_iff:
  "first_free uu a n k \<longleftrightarrow>
     data a (uuid_New uu (n + k)) = None \<and> (\<forall>j<k. data a (uuid_New uu (n + j)) \<noteq> None)"
  by (auto simp: first_free_def list_all_iff)

lemma first_free_Least:
  assumes "data a (uuid_New uu (n + k)) = None"
  shows "\<exists>k'. first_free uu a n k'"
proof -
  let ?P = "\<lambda>k. data a (uuid_New uu (n + k)) = None"
  have "?P (LEAST k. ?P k)" using assms by (rule LeastI)
  moreover have "\<forall>j<(LEAST k. ?P k). \<not> ?P j" using not_less_Least by blast
  ultimately have "first_free uu a n (LEAST k. ?P k)" by (simp add: first_free_iff)
  then show ?thesis ..
qed

lemma first_free_unique: "first_free uu a n k \<Longrightarrow> first_free uu a n k' \<Longrightarrow> k = k'"
  unfolding first_free_iff by (metis linorder_neqE_nat)

text \<open>The first candidate is drawn before the loop, so the search starts at call \<open>n\<close>.\<close>

lemma Insert_search:
  "first_free uu a n k \<Longrightarrow>
   Insert_loop uu a (Suc n) (uuid_New uu n) (data a (uuid_New uu n) \<noteq> None) =
     Some (uuid_New uu (n + k), Suc (n + k))"
  using Insert_loop_first_free [of a uu n k "uuid_New uu 0"]
  by (simp add: first_free_iff Insert_loop_again)

lemma Insert_first_free:
  "first_free uu a n k \<Longrightarrow>
   Insert uu a n user =
     Some (user, uuid_String uu (uuid_New uu (n + k)),
           a\<lparr>data := (data a)(uuid_New uu (n + k) \<mapsto> user)\<rparr>, Suc (n + k))"
  using Insert_search [of uu a n k] by (simp add: Insert_def map_index_def)

lemma Insert_Some_first_free:
  assumes "Insert uu a n user = Some r"
  shows "\<exists>k. first_free uu a n k"
proof -
  from assms obtain r' where
    "Insert_loop uu a (Suc n) (uuid_New uu n) (data a (uuid_New uu n) \<noteq> None) = Some r'"
    by (auto simp: Insert_def split: option.splits)
  then have "Insert_loop uu a n (uuid_New uu 0) True = Some r'"
    by (simp add: Insert_loop_again)
  from Insert_loop_Some_free [OF this] obtain k where "data a (uuid_New uu (n + k)) = None"
    by auto
  then show ?thesis by (rule first_free_Least)
qed

lemma canonical_String_0: "canonical_String 0 = ''00000000-0000-0000-0000-000000000000''"
  by (simp add: canonical_String_def hex_byte_def hex_digit_def)

lemma canonical_String_1: "canonical_String 1 = ''00000000-0000-0000-0000-000000000001''"
  by (simp add: canonical_String_def hex_byte_def hex_digit_def drop_bit_eq_div)

lemma canonical_Parse_1: "canonical_Parse ''00000000-0000-0000-0000-000000000001'' = Some 1"
  by (simp add: canonical_Parse_def hex_value_def)

lemma canonical_Parse_bad: "canonical_Parse ''not-a-uuid'' = None"
  by (simp add: canonical_Parse_def)

lemma canonical_Parse_0: "canonical_Parse ''00000000-0000-0000-0000-000000000000'' = Some 0"
  by (simp add: canonical_Parse_def hex_value_def)

lemma canonical_String_7: "canonical_String 7 = ''00000000-0000-0000-0000-000000000007''"
  by (simp add: canonical_String_def hex_byte_def hex_digit_def drop_bit_eq_div)

lemma Insert_stuck_None: "Insert stuck_uuid stuck_db n u = None"
proof (rule ccontr)
  assume "Insert stuck_uuid stuck_db n u \<noteq> None"
  then obtain r where "Insert stuck_uuid stuck_db n u = Some r" by auto
  from Insert_Some_first_free [OF this] show False
    by (simp add: first_free_iff stuck_uuid_def stuck_New_def stuck_db_def)
qed

lemma Insert_Some_cases:
  assumes "Insert uu a n user = Some (u', s, a', n')"
  obtains k where "first_free uu a n k" and "u' = user"
    and "s = uuid_String uu (uuid_New uu (n + k))"
    and "a' = a\<lparr>data := (data a)(uuid_New uu (n + k) \<mapsto> user)\<rparr>" and "n' = Suc (n + k)"
proof -
  from Insert_Some_first_free [OF assms] obtain k where k: "first_free uu a n k" ..
  from Insert_first_free [OF k, of user] assms
  have "u' = user" "s = uuid_String uu (uuid_New uu (n + k))"
    "a' = a\<lparr>data := (data a)(uuid_New uu (n + k) \<mapsto> user)\<rparr>" "n' = Suc (n + k)"
    by simp_all
  with k that show thesis by blast
qed

lemma apply_op_keeps:
  assumes "data a i = Some u" and "\<not> writes_to i x" and "apply_op uu (a, n) x = Some (a', n')"
  shows "data a' i = Some u"
proof (cases x)
  case (OpInsert user)
  with assms(3) obtain u' s where ins: "Insert uu a n user = Some (u', s, a', n')"
    by (auto split: option.splits)
  from ins obtain k where k: "first_free uu a n k"
    and a': "a' = a\<lparr>data := (data a)(uuid_New uu (n + k) \<mapsto> user)\<rparr>"
    by (rule Insert_Some_cases)
  from k assms(1) have "uuid_New uu (n + k) \<noteq> i" by (auto simp: first_free_iff)
  with a' assms(1) show ?thesis by simp
next
  case OpFindAll
  with assms show ?thesis by simp
next
  case (OpFindByID j)
  with assms show ?thesis by simp
next
  case (OpUpdate j user)
  with assms show ?thesis by (auto simp: Update_def)
next
  case (OpDelete j)
  with assms show ?thesis by (auto simp: Delete_def)
qed

lemma run_ops_keeps:
  "data a i = Some u \<Longrightarrow> list_all (\<lambda>x. \<not> writes_to i x) ops \<Longrightarrow>
   run_ops uu (a, n) ops = Some (a', n') \<Longrightarrow> data a' i = Some u"
proof (induction ops arbitrary: a n)
  case Nil
  then show ?case by simp
next
  case (Cons x xs)
  from Cons.prems(3) obtain a1 n1 where step: "apply_op uu (a, n) x = Some (a1, n1)"
    and rest: "run_ops uu (a1, n1) xs = Some (a', n')"
    by (auto split: option.splits)
  from Cons.prems(1,2) step have "data a1 i = Some u" by (auto intro: apply_op_keeps)
  with Cons.IH [of a1 n1] Cons.prems(2) rest show ?case by simp
qed

lemma Insert_ada: "Insert example_uuid run_db 0 ada =
     Some (ada, ''00000000-0000-0000-0000-000000000000'', ada_db, 1)"
  by (simp add: Insert_def Insert_loop_exit Insert_loop_again run_db_def NewApplication_def
      example_uuid_def twice_New_def map_index_def canonical_String_0 ada_db_def)

lemma Insert_alan: "Insert example_uuid ada_db 1 alan =
     Some (alan, ''00000000-0000-0000-0000-000000000001'',
           ada_db\<lparr>data := (data ada_db)(1 \<mapsto> alan)\<rparr>, 3)"
  by (simp add: Insert_def Insert_loop_exit Insert_loop_again
      example_uuid_def twice_New_def map_index_def canonical_String_1 ada_db_def)

lemma run_ops_example:
  "run_ops example_uuid (ada_db, 1) ops_example =
     Some (ada_db\<lparr>data := (data ada_db)(1 \<mapsto> ada)\<rparr>, 3)"
proof -
  have "apply_op example_uuid (ada_db, 1) (OpInsert alan) =
          Some (ada_db\<lparr>data := (data ada_db)(1 \<mapsto> alan)\<rparr>, 3)"
    by (simp add: Insert_alan [unfolded One_nat_def])
  then show ?thesis
    by (simp add: ops_example_def Update_def Delete_def ada_db_def del: apply_op.simps(1))
qed

lemma ops_example_no_write: "list_all (\<lambda>x. \<not> writes_to 0 x) ops_example"
  by (simp add: ops_example_def)

section \<open>Responses\<close>

lemma sendJSON_fresh:
  "sendJSON NewResponseWriter resp status =
     \<lparr>Header = [''Content-Type'' \<mapsto> ''application/json''],
      Status = Some status,
      Body = (if bodyAllowedForStatus status
              then [Json (JObject
                ((if Error resp = [] then [] else [(''error'', JString (Error resp))]) @
                 (if Data resp = AnyNil then [] else [(''data'', Marshal_any (Data resp))])))]
              else []),
      Log = (if bodyAllowedForStatus status then []
             else [''failed to write response to client.''])\<rparr>"
  by (simp add: sendJSON.simps Marshal_def Header_Set_def WriteHeader_def Write_def
      NewResponseWriter_def slog_Error_def)

lemma http_Error_fresh:
  "bodyAllowedForStatus code \<Longrightarrow>
   http_Error NewResponseWriter msg code =
     \<lparr>Header = [''Content-Type'' \<mapsto> ''text/plain; charset=utf-8'',
                ''X-Content-Type-Options'' \<mapsto> ''nosniff''],
      Status = Some code, Body = [Text (msg @ [CHR 0x0A])], Log = []\<rparr>"
  by (simp add: http_Error_def Header_Set_def WriteHeader_def Write_def NewResponseWriter_def)

lemma body_allowed [simp]:
  "bodyAllowedForStatus StatusOK" "bodyAllowedForStatus StatusCreated"
  "\<not> bodyAllowedForStatus StatusNoContent" "bodyAllowedForStatus StatusBadRequest"
  "bodyAllowedForStatus StatusNotFound"
  by (simp_all add: bodyAllowedForStatus_def)

section \<open>Insert\<close>

text \<open>
  C1, as the claim states it, fails: \<^verbatim>\<open>Insert\<close> does not return for every store
  state. Starting from the empty store of \<^verbatim>\<open>main.go\<close> with a generator that returns
  the same identifier at every call, the first \<^verbatim>\<open>Insert\<close> returns and the second never
  does.
\<close>

theorem Insert_second_call_counterexample:
  "Insert stuck_uuid run_db 0 ada =
     Some (ada, ''00000000-0000-0000-0000-000000000007'', stuck_db, 1) \<and>
   Insert stuck_uuid stuck_db 1 alan = None"
proof
  show "Insert stuck_uuid run_db 0 ada =
     Some (ada, ''00000000-0000-0000-0000-000000000007'', stuck_db, 1)"
    by (simp add: Insert_def Insert_loop_exit run_db_def NewApplication_def stuck_uuid_def
        stuck_New_def map_index_def canonical_String_7 stuck_db_def)
  show "Insert stuck_uuid stuck_db 1 alan = None" by (rule Insert_stuck_None)
qed

text \<open>
  C1, amended. \<^verbatim>\<open>Insert\<close> has no error path, and it returns whenever \<^verbatim>\<open>uuid.New()\<close>
  comes to return an identifier that is not a key of the store. When \<open>k\<close> is the offset
  of the first such identifier (the loop has regenerated on each of the collisions
  before it), \<^verbatim>\<open>Insert\<close> returns: that identifier was not a key of the store, the
  user is stored under it and nothing else changes, and the result is the stored record,
  equal to the user, with the identifier's string form.
\<close>

theorem Insert_fresh_identifier:
  assumes "first_free uu a n k"
  shows "uuid_New uu (n + k) \<notin> dom (data a) \<and>
         Insert uu a n user =
           Some (user, uuid_String uu (uuid_New uu (n + k)),
                 a\<lparr>data := (data a)(uuid_New uu (n + k) \<mapsto> user)\<rparr>, Suc (n + k))"
  using assms Insert_first_free [OF assms, of user] by (simp add: first_free_iff domIff)

theorem Insert_fresh_identifier_witness:
  "first_free example_uuid ada_db 1 1 \<and>
   uuid_New example_uuid (1 + 1) \<notin> dom (data ada_db) \<and>
   Insert example_uuid ada_db 1 alan =
     Some (alan, ''00000000-0000-0000-0000-000000000001'',
           ada_db\<lparr>data := (data ada_db)(1 \<mapsto> alan)\<rparr>, 3)"
proof -
  have h: "first_free example_uuid ada_db 1 1"
    by (simp add: first_free_def example_uuid_def twice_New_def ada_db_def)
  from Insert_fresh_identifier [OF h, of alan] h show ?thesis
    by (simp add: example_uuid_def twice_New_def canonical_String_1)
qed

text \<open>
  C9, as the claim states it, fails: a store with one entry has free identifiers, and
  yet \<^verbatim>\<open>Insert\<close> never returns when every call of \<^verbatim>\<open>uuid.New()\<close> returns the key
  of that entry.
\<close>

theorem Insert_stuck_counterexample:
  "card (dom (data stuck_db)) < 2 ^ 128 \<and> data stuck_db 8 = None \<and>
   Insert stuck_uuid stuck_db 0 alan = None"
proof -
  have "Insert stuck_uuid stuck_db 0 alan = None" by (rule Insert_stuck_None)
  moreover have "card (dom (data stuck_db)) < 2 ^ 128 \<and> data stuck_db 8 = None"
    by (simp add: stuck_db_def)
  ultimately show ?thesis by simp
qed

text \<open>
  C9, amended. The retry loop exits, and \<^verbatim>\<open>Insert\<close> returns, exactly when one of the
  identifiers that \<^verbatim>\<open>uuid.New()\<close> returns from this call on is not a key of the store.
\<close>

theorem Insert_returns_iff:
  "Insert uu a n user \<noteq> None \<longleftrightarrow> (\<exists>k. data a (uuid_New uu (n + k)) = None)"
proof
  assume "Insert uu a n user \<noteq> None"
  then obtain r where "Insert uu a n user = Some r" by auto
  from Insert_Some_first_free [OF this] show "\<exists>k. data a (uuid_New uu (n + k)) = None"
    by (auto simp: first_free_iff)
next
  assume "\<exists>k. data a (uuid_New uu (n + k)) = None"
  then obtain k where "data a (uuid_New uu (n + k)) = None" ..
  from first_free_Least [OF this] obtain k' where "first_free uu a n k'" ..
  from Insert_first_free [OF this, of user] show "Insert uu a n user \<noteq> None" by simp
qed

theorem Insert_returns_iff_witness:
  "data ada_db (uuid_New example_uuid (1 + 1)) = None \<and>
   Insert example_uuid ada_db 1 alan \<noteq> None"
proof -
  have free: "data ada_db (uuid_New example_uuid (1 + 1)) = None"
    by (simp add: example_uuid_def twice_New_def ada_db_def)
  then have "\<exists>k. data ada_db (uuid_New example_uuid (1 + k)) = None" by (rule exI)
  then have "Insert example_uuid ada_db 1 alan \<noteq> None"
    by (rule Insert_returns_iff [THEN iffD2])
  with free show ?thesis by (rule conjI)
qed

section \<open>Reading back what was inserted\<close>

text \<open>
  C2. After \<^verbatim>\<open>Insert(u)\<close> has returned the string of an identifier, that identifier
  was not a key before, \<^verbatim>\<open>FindByID\<close> of it returns a record equal to \<open>u\<close>, and so it
  does after every sequence of calls of the five methods that has no \<^verbatim>\<open>Update\<close> and
  no \<^verbatim>\<open>Delete\<close> of that identifier (a later \<^verbatim>\<open>Insert\<close> never reuses it). The
  sequences are those whose calls have all returned; as every prefix of a sequence is
  one of them, the record is there at every point that a run reaches.
\<close>

theorem FindByID_after_Insert:
  assumes "Insert uu a n u = Some (u', s, a1, n1)"
  shows "\<exists>ident. s = uuid_String uu ident \<and> data a ident = None \<and>
           FindByID a1 ident = Some u \<and>
           (\<forall>ops a2 n2. list_all (\<lambda>x. \<not> writes_to ident x) ops \<longrightarrow>
                run_ops uu (a1, n1) ops = Some (a2, n2) \<longrightarrow> FindByID a2 ident = Some u)"
proof -
  from assms obtain k where k: "first_free uu a n k"
    and s: "s = uuid_String uu (uuid_New uu (n + k))"
    and a1: "a1 = a\<lparr>data := (data a)(uuid_New uu (n + k) \<mapsto> u)\<rparr>"
    by (rule Insert_Some_cases)
  let ?i = "uuid_New uu (n + k)"
  have stored: "data a1 ?i = Some u" using a1 by simp
  have "\<forall>ops a2 n2. list_all (\<lambda>x. \<not> writes_to ?i x) ops \<longrightarrow>
          run_ops uu (a1, n1) ops = Some (a2, n2) \<longrightarrow> FindByID a2 ?i = Some u"
    using run_ops_keeps [OF stored] by (auto simp: FindByID_def)
  moreover have "FindByID a1 ?i = Some u" using stored by (simp add: FindByID_def)
  moreover have "data a ?i = None" using k by (simp add: first_free_iff)
  ultimately show ?thesis using s by blast
qed

theorem FindByID_after_Insert_witness:
  "Insert example_uuid run_db 0 ada =
     Some (ada, ''00000000-0000-0000-0000-000000000000'', ada_db, 1) \<and>
   list_all (\<lambda>x. \<not> writes_to 0 x) ops_example \<and>
   run_ops example_uuid (ada_db, 1) ops_example =
     Some (ada_db\<lparr>data := (data ada_db)(1 \<mapsto> ada)\<rparr>, 3) \<and>
   FindByID ada_db 0 = Some ada \<and>
   FindByID (ada_db\<lparr>data := (data ada_db)(1 \<mapsto> ada)\<rparr>) 0 = Some ada"
proof -
  from FindByID_after_Insert [OF Insert_ada] obtain ident where
    now: "FindByID ada_db ident = Some ada" and
    later: "\<And>ops a2 n2. list_all (\<lambda>x. \<not> writes_to ident x) ops \<Longrightarrow>
       run_ops example_uuid (ada_db, 1) ops = Some (a2, n2) \<Longrightarrow> FindByID a2 ident = Some ada"
    by blast
  from now have ident: "ident = 0"
    by (simp add: FindByID_def ada_db_def split: option.splits if_splits)
  from later [OF _ run_ops_example] ops_example_no_write ident
  have "FindByID (ada_db\<lparr>data := (data ada_db)(1 \<mapsto> ada)\<rparr>) 0 = Some ada" by simp
  with now ident Insert_ada ops_example_no_write run_ops_example show ?thesis by simp
qed

section \<open>Frame\<close>

text \<open>
  C10. \<^verbatim>\<open>Update\<close> and \<^verbatim>\<open>Delete\<close> of an identifier leave the map unchanged at every
  other key; \<^verbatim>\<open>FindAll\<close> and \<^verbatim>\<open>FindByID\<close> only read, so a call of either leaves the
  whole store as it was.
\<close>

theorem store_frame:
  "(k \<noteq> ident \<longrightarrow> data (Update a ident u) k = data a k \<and> data (Delete a ident) k = data a k) \<and>
   apply_op uu (a, n) OpFindAll = Some (a, n) \<and>
   apply_op uu (a, n) (OpFindByID ident) = Some (a, n)"
  by (simp add: Update_def Delete_def)

theorem store_frame_witness:
  "(1::ID) \<noteq> 0 \<and> data (Update ada_db 0 alan) 1 = data ada_db 1 \<and>
   data (Delete ada_db 0) 1 = data ada_db 1 \<and> data (Update ada_db 0 alan) 0 = Some alan"
  using store_frame [of 1 0 ada_db alan example_uuid 0]
  by (simp add: Update_def ada_db_def)

section \<open>The handlers\<close>

text \<open>
  C3. For an identifier that is not a key of the store, \<^verbatim>\<open>Update\<close> leaves the store
  unchanged, and a PUT request for it with a decodable body is answered with status 404
  and leaves the store unchanged.
\<close>

theorem Update_absent_unchanged:
  assumes "data db ident = None"
  shows "Update db ident u = db \<and>
         (Decoding r \<noteq> DecodeError \<longrightarrow> uuid_Parse uu (URLParam_id r) = Some ident \<longrightarrow>
            Status (fst (UpdateUserHandler uu db NewResponseWriter r)) = Some StatusNotFound \<and>
            snd (UpdateUserHandler uu db NewResponseWriter r) = db)"
  using assms
  by (cases "Decoding r")
     (simp_all add: Update_def UpdateUserHandler_def Decode_def FindByID_def sendJSON_fresh)

theorem Update_absent_unchanged_witness:
  "data ada_db 1 = None \<and> Decoding put_alan_1 \<noteq> DecodeError \<and>
   uuid_Parse example_uuid (URLParam_id put_alan_1) = Some 1 \<and>
   Update ada_db 1 alan = ada_db \<and>
   Status (fst (UpdateUserHandler example_uuid ada_db NewResponseWriter put_alan_1)) =
     Some StatusNotFound \<and>
   snd (UpdateUserHandler example_uuid ada_db NewResponseWriter put_alan_1) = ada_db"
proof -
  have h: "data ada_db 1 = None" by (simp add: ada_db_def)
  have d: "Decoding put_alan_1 \<noteq> DecodeError" by (simp add: put_alan_1_def)
  have p: "uuid_Parse example_uuid (URLParam_id put_alan_1) = Some 1"
    by (simp add: example_uuid_def put_alan_1_def canonical_Parse_1)
  from Update_absent_unchanged [OF h, of alan put_alan_1 example_uuid] h d p
  show ?thesis by simp
qed

text \<open>
  C4. On an empty store the list handler answers with status 200 and the body
  \<^verbatim>\<open>{"data":[]}\<close>: an object whose only key is \<^verbatim>\<open>data\<close>, with the empty array, not
  \<^verbatim>\<open>null\<close>, as its value.
\<close>

theorem FindAll_empty_data_array:
  assumes "data db = Map.empty"
  shows "Status (FindAllUsersHandler uu db keys NewResponseWriter r) = Some StatusOK \<and>
         Body (FindAllUsersHandler uu db keys NewResponseWriter r) =
           [Json (JObject [(''data'', JArray [])])]"
proof -
  have "range_users uu (data db) keys acc = acc" for acc
    using assms by (induction keys) simp_all
  then show ?thesis
    by (simp add: FindAllUsersHandler_def FindAll_def sendJSON_fresh Marshal_any_def)
qed

theorem FindAll_empty_data_array_witness:
  "data run_db = Map.empty \<and>
   Status (FindAllUsersHandler example_uuid run_db [] NewResponseWriter bad_request) =
     Some StatusOK \<and>
   Body (FindAllUsersHandler example_uuid run_db [] NewResponseWriter bad_request) =
     [Json (JObject [(''data'', JArray [])])]"
proof -
  have h: "data run_db = Map.empty" by (simp add: run_db_def NewApplication_def)
  from FindAll_empty_data_array [OF h, of example_uuid "[]" bad_request] h
  show ?thesis by simp
qed

text \<open>
  C5. For an identifier that is a key of the store, a PUT request with a decodable body
  and a DELETE request are answered with status 204 and an empty body (the handler
  hands the two bytes of an empty object to \<^verbatim>\<open>Write\<close>, which refuses a body for
  status 204).
\<close>

theorem success_no_content:
  assumes "uuid_Parse uu (URLParam_id r) = Some ident" and "data db ident \<noteq> None"
  shows "(Decoding r \<noteq> DecodeError \<longrightarrow>
            Status (fst (UpdateUserHandler uu db NewResponseWriter r)) = Some StatusNoContent \<and>
            Body (fst (UpdateUserHandler uu db NewResponseWriter r)) = []) \<and>
         Status (fst (DeleteUserHandler uu db NewResponseWriter r)) = Some StatusNoContent \<and>
         Body (fst (DeleteUserHandler uu db NewResponseWriter r)) = []"
  using assms
  by (cases "Decoding r")
     (auto simp: UpdateUserHandler_def DeleteUserHandler_def Decode_def FindByID_def
        sendJSON_fresh)

theorem success_no_content_witness:
  "uuid_Parse example_uuid (URLParam_id put_alan_0) = Some 0 \<and> data ada_db 0 \<noteq> None \<and>
   Decoding put_alan_0 \<noteq> DecodeError \<and>
   Status (fst (UpdateUserHandler example_uuid ada_db NewResponseWriter put_alan_0)) =
     Some StatusNoContent \<and>
   Body (fst (UpdateUserHandler example_uuid ada_db NewResponseWriter put_alan_0)) = [] \<and>
   Status (fst (DeleteUserHandler example_uuid ada_db NewResponseWriter put_alan_0)) =
     Some StatusNoContent \<and>
   Body (fst (DeleteUserHandler example_uuid ada_db NewResponseWriter put_alan_0)) = []"
proof -
  have p: "uuid_Parse example_uuid (URLParam_id put_alan_0) = Some 0"
    by (simp add: example_uuid_def put_alan_0_def canonical_Parse_0)
  have h: "data ada_db 0 \<noteq> None" by (simp add: ada_db_def)
  have d: "Decoding put_alan_0 \<noteq> DecodeError" by (simp add: put_alan_0_def)
  from success_no_content [OF p h] p h d show ?thesis by simp
qed

text \<open>
  C6, as the claim states it, fails: the PUT handler decodes the body before it parses
  the identifier. A request with an invalid identifier and an undecodable body is
  answered with the error of the body, not with the one of the identifier.
\<close>

theorem Update_bad_request_counterexample:
  "uuid_Parse example_uuid (URLParam_id bad_request) = None \<and>
   fst (UpdateUserHandler example_uuid ada_db NewResponseWriter bad_request) \<noteq>
     http_Error NewResponseWriter ''UUID not valid'' StatusBadRequest \<and>
   Body (fst (UpdateUserHandler example_uuid ada_db NewResponseWriter bad_request)) =
     [Json (JObject [(''error'',
        JString ''Please provide FirstName LastName and bio for the user'')])]"
  by (simp add: example_uuid_def bad_request_def canonical_Parse_bad UpdateUserHandler_def
      Decode_def sendJSON_fresh http_Error_fresh)

text \<open>
  C6, amended. The PUT handler decodes the request body, then parses the path
  identifier, then looks the record up, then replaces it. A request whose identifier is
  not valid is answered with status 400 and leaves the store unchanged: with the
  plain text \<^verbatim>\<open>UUID not valid\<close> when the body is decodable, with the JSON error of the
  body when it is not.
\<close>

theorem Update_invalid_id:
  assumes "uuid_Parse uu (URLParam_id r) = None"
  shows "UpdateUserHandler uu db NewResponseWriter r =
           (if Decoding r = DecodeError
            then sendJSON NewResponseWriter
                   \<lparr>Error = ''Please provide FirstName LastName and bio for the user'',
                    Data = AnyNil\<rparr> StatusBadRequest
            else http_Error NewResponseWriter ''UUID not valid'' StatusBadRequest, db) \<and>
         Status (fst (UpdateUserHandler uu db NewResponseWriter r)) = Some StatusBadRequest \<and>
         Body (fst (UpdateUserHandler uu db NewResponseWriter r)) =
           (if Decoding r = DecodeError
            then [Json (JObject [(''error'',
                   JString ''Please provide FirstName LastName and bio for the user'')])]
            else [Text (''UUID not valid'' @ [CHR 0x0A])])"
  using assms
  by (cases "Decoding r")
     (simp_all add: UpdateUserHandler_def Decode_def sendJSON_fresh http_Error_fresh)

theorem Update_invalid_id_witness:
  "uuid_Parse example_uuid (URLParam_id bad_id_request) = None \<and>
   Status (fst (UpdateUserHandler example_uuid ada_db NewResponseWriter bad_id_request)) =
     Some StatusBadRequest \<and>
   Body (fst (UpdateUserHandler example_uuid ada_db NewResponseWriter bad_id_request)) =
     [Text (''UUID not valid'' @ [CHR 0x0A])] \<and>
   snd (UpdateUserHandler example_uuid ada_db NewResponseWriter bad_id_request) = ada_db"
proof -
  have p: "uuid_Parse example_uuid (URLParam_id bad_id_request) = None"
    by (simp add: example_uuid_def bad_id_request_def canonical_Parse_bad)
  from Update_invalid_id [OF p, of ada_db] p show ?thesis
    by (simp add: bad_id_request_def http_Error_fresh)
qed

text \<open>
  C7. For an identifier that parses and is not a key of the store, the fetch handler
  answers with status 404 and the JSON body
  \<^verbatim>\<open>{"error":"The user with the specified ID does not exist."}\<close>.
\<close>

theorem FindByID_not_found:
  assumes "uuid_Parse uu (URLParam_id r) = Some ident" and "data db ident = None"
  shows "Status (FindByIDUserHandler uu db NewResponseWriter r) = Some StatusNotFound \<and>
         Body (FindByIDUserHandler uu db NewResponseWriter r) =
           [Json (JObject [(''error'',
              JString ''The user with the specified ID does not exist.'')])] \<and>
         Header (FindByIDUserHandler uu db NewResponseWriter r) ''Content-Type'' =
           Some ''application/json''"
  using assms by (simp add: FindByIDUserHandler_def FindByID_def sendJSON_fresh)

theorem FindByID_not_found_witness:
  "uuid_Parse example_uuid (URLParam_id put_alan_1) = Some 1 \<and> data ada_db 1 = None \<and>
   Status (FindByIDUserHandler example_uuid ada_db NewResponseWriter put_alan_1) =
     Some StatusNotFound \<and>
   Body (FindByIDUserHandler example_uuid ada_db NewResponseWriter put_alan_1) =
     [Json (JObject [(''error'',
        JString ''The user with the specified ID does not exist.'')])]"
proof -
  have p: "uuid_Parse example_uuid (URLParam_id put_alan_1) = Some 1"
    by (simp add: example_uuid_def put_alan_1_def canonical_Parse_1)
  have h: "data ada_db 1 = None" by (simp add: ada_db_def)
  from FindByID_not_found [OF p h] p h show ?thesis by simp
qed

text \<open>
  C8, as the claim states it, fails: a decodable body is not always answered with 201.
  When \<^verbatim>\<open>uuid.New()\<close> keeps returning a key of the store, \<^verbatim>\<open>Insert\<close> never returns
  and the create handler writes no response at all.
\<close>

theorem Create_stuck_counterexample:
  "Decoding post_partial \<noteq> DecodeError \<and>
   CreateUserHandler stuck_uuid stuck_db 0 NewResponseWriter post_partial = None"
  by (simp add: post_partial_def CreateUserHandler_def Decode_def Insert_stuck_None)

text \<open>
  C8, amended. The create handler answers an undecodable body with status 400 and
  leaves the store unchanged. It answers a decodable body, whenever \<^verbatim>\<open>Insert\<close>
  returns, with status 201 and the created user: the fields that the body omits are
  stored and echoed back as empty strings, and nothing but decodability is checked.
  Every response of the handler has status 400 exactly when the body is undecodable.
\<close>

theorem Create_status:
  "(Decoding r = DecodeError \<longrightarrow>
      (\<exists>w'. CreateUserHandler uu db n NewResponseWriter r = Some (w', db, n) \<and>
            Status w' = Some StatusBadRequest)) \<and>
   (Decoding r = Decoded f l b \<longrightarrow> first_free uu db n k \<longrightarrow>
      (\<exists>w'. CreateUserHandler uu db n NewResponseWriter r =
              Some (w',
                    db\<lparr>data := (data db)(uuid_New uu (n + k) \<mapsto>
                      \<lparr>FirstName = or_empty f, LastName = or_empty l,
                       Biography = or_empty b\<rparr>)\<rparr>,
                    Suc (n + k)) \<and>
            Status w' = Some StatusCreated \<and>
            Body w' =
              [Json (JObject [(''data'',
                 JObject [(''id'', JString (uuid_String uu (uuid_New uu (n + k)))),
                          (''first_name'', JString (or_empty f)),
                          (''last_name'', JString (or_empty l)),
                          (''biography'', JString (or_empty b))])])])) \<and>
   (CreateUserHandler uu db n NewResponseWriter r = Some (w', db', n') \<longrightarrow>
      (Status w' = Some StatusBadRequest \<longleftrightarrow> Decoding r = DecodeError))"
proof (intro conjI impI)
  assume "Decoding r = DecodeError"
  then show "\<exists>w'. CreateUserHandler uu db n NewResponseWriter r = Some (w', db, n) \<and>
            Status w' = Some StatusBadRequest"
    by (simp add: CreateUserHandler_def Decode_def sendJSON_fresh)
next
  assume d: "Decoding r = Decoded f l b" and k: "first_free uu db n k"
  have body: "Decode r zero_User =
      Inr \<lparr>FirstName = or_empty f, LastName = or_empty l, Biography = or_empty b\<rparr>"
    using d by (simp add: Decode_def zero_User_def or_empty_def split: option.splits)
  show "\<exists>w'. CreateUserHandler uu db n NewResponseWriter r =
              Some (w',
                    db\<lparr>data := (data db)(uuid_New uu (n + k) \<mapsto>
                      \<lparr>FirstName = or_empty f, LastName = or_empty l,
                       Biography = or_empty b\<rparr>)\<rparr>,
                    Suc (n + k)) \<and>
            Status w' = Some StatusCreated \<and>
            Body w' =
              [Json (JObject [(''data'',
                 JObject [(''id'', JString (uuid_String uu (uuid_New uu (n + k)))),
                          (''first_name'', JString (or_empty f)),
                          (''last_name'', JString (or_empty l)),
                          (''biography'', JString (or_empty b))])])]"
    by (simp add: CreateUserHandler_def body Insert_first_free [OF k] sendJSON_fresh
        Marshal_any_def Marshal_UserResponse_def)
next
  assume h: "CreateUserHandler uu db n NewResponseWriter r = Some (w', db', n')"
  show "Status w' = Some StatusBadRequest \<longleftrightarrow> Decoding r = DecodeError"
  proof (cases "Decoding r")
    case DecodeError
    with h show ?thesis by (auto simp: CreateUserHandler_def Decode_def sendJSON_fresh)
  next
    case (Decoded f l b)
    with h show ?thesis
      by (auto simp: CreateUserHandler_def Decode_def sendJSON_fresh split: option.splits)
  qed
qed

theorem Create_status_witness:
  "Decoding post_partial = Decoded (Some ''Alan'') None None \<and>
   first_free example_uuid ada_db 1 1 \<and>
   (\<exists>w'. CreateUserHandler example_uuid ada_db 1 NewResponseWriter post_partial =
           Some (w',
                 ada_db\<lparr>data := (data ada_db)(1 \<mapsto>
                   \<lparr>FirstName = ''Alan'', LastName = [], Biography = []\<rparr>)\<rparr>, 3) \<and>
         Status w' = Some StatusCreated \<and>
         Body w' =
           [Json (JObject [(''data'',
              JObject [(''id'', JString ''00000000-0000-0000-0000-000000000001''),
                       (''first_name'', JString ''Alan''),
                       (''last_name'', JString []),
                       (''biography'', JString [])])])])"
proof -
  have d: "Decoding post_partial = Decoded (Some ''Alan'') None None"
    by (simp add: post_partial_def)
  have k: "first_free example_uuid ada_db 1 1"
    by (simp add: first_free_def example_uuid_def twice_New_def ada_db_def)
  note c = Create_status [of post_partial example_uuid ada_db 1 "Some ''Alan''" None None 1,
      THEN conjunct2, THEN conjunct1, rule_format, OF d k]
  have "uuid_New example_uuid (1 + 1) = 1" "uuid_String example_uuid 1 =
      ''00000000-0000-0000-0000-000000000001''"
    by (simp_all add: example_uuid_def twice_New_def canonical_String_1)
  with c d k show ?thesis by (simp add: or_empty_def numeral_3_eq_3)
qed

end
